theory Spec2Isabelle
  imports Main "HOL-Library.Sublist"
begin

section \<open>The greeting agent's start-up routine\<close>

text \<open>
  The repository is one file, \<^verbatim>\<open>Dummy_Agent/__main__.py\<close>, whose function \<^verbatim>\<open>main\<close>
  builds two descriptors, a request handler and an application object and hands the
  built application to \<^verbatim>\<open>uvicorn.run\<close>. Every callee is code of the a2a framework, of
  uvicorn or of the module \<^verbatim>\<open>agent_executor\<close>; none of it is part of the file. The
  model therefore keeps the callees abstract: a \<open>framework\<close> decides for every call
  whether it returns, raises or never comes back, and \<^verbatim>\<open>main\<close> is the fixed sequence
  of calls the source makes, with the arguments the source gives them.
\<close>

subsection \<open>Objects\<close>

text \<open>
  Python variables and fields hold references. An object lives in a heap, a list of
  objects indexed by address; a constructor call that returns appends one object.
\<close>

type_synonym addr = nat

text \<open>
  \<^verbatim>\<open>AgentSkill(id=..., name=..., description=..., tags=..., examples=...)\<close>: one field
  for each keyword argument of the call at lines 10 to 16. Three field names carry the
  suffix \<open>_skill\<close>: \<open>id\<close> is the identity function of HOL, and \<open>name\<close> and
  \<open>description\<close> are fields of the agent card as well.
\<close>

record AgentSkill =
  id_skill :: string
  name_skill :: string
  description_skill :: string
  tags :: "string list"
  examples :: "string list"

text \<open>
  \<^verbatim>\<open>AgentCard(...)\<close>, lines 18 to 27. \<open>skills\<close> is a list of references and
  \<open>capabilities\<close> a reference, as in the source.
\<close>

record AgentCard =
  name :: string
  description :: string
  url :: string
  defaultInputModes :: "string list"
  defaultOutputModes :: "string list"
  skills :: "addr list"
  version :: string
  capabilities :: addr

text \<open>\<^verbatim>\<open>DefaultRequestHandler(agent_executor=..., task_store=...)\<close>, lines 30 to 33.\<close>

record DefaultRequestHandler =
  agent_executor :: addr
  task_store :: addr

text \<open>\<^verbatim>\<open>A2AStarletteApplication(http_handler=..., agent_card=...)\<close>, lines 37 to 40.\<close>

record A2AStarletteApplication =
  http_handler :: addr
  agent_card :: addr

text \<open>
  The objects \<^verbatim>\<open>main\<close> creates. \<open>AgentCapabilities\<close> carries the keyword arguments
  the call site passes (the fields of that class are declared in the framework, not
  here); \<open>GreetingAgentExecutor\<close> and \<open>InMemoryTaskStore\<close> are constructed without
  arguments; \<open>Built a\<close> is what \<^verbatim>\<open>server.build()\<close> returns for the application at
  address \<open>a\<close>.
\<close>

datatype obj =
    AgentSkill AgentSkill
  | AgentCapabilities "(string \<times> bool) list"
  | AgentCard AgentCard
  | GreetingAgentExecutor
  | InMemoryTaskStore
  | DefaultRequestHandler DefaultRequestHandler
  | A2AStarletteApplication A2AStarletteApplication
  | Built addr

subsection \<open>Calls into the framework\<close>

text \<open>
  The three kinds of call \<^verbatim>\<open>main\<close> makes: a constructor call (described by the object
  it asks for), \<^verbatim>\<open>server.build()\<close>, and \<^verbatim>\<open>uvicorn.run(app, host=..., port=...)\<close>.
\<close>

datatype call =
    Construct obj
  | Build addr
  | UvicornRun addr string int

datatype exn = Exception string

text \<open>What a call does: it returns, it raises, or it never comes back.\<close>

datatype reply = Returns | Raises exn | Blocks

record state =
  heap :: "obj list"
  calls :: "(call \<times> reply) list"

type_synonym framework = "state \<Rightarrow> call \<Rightarrow> reply"

datatype 'a outcome = Returned 'a | Raised exn | Blocked

definition init :: "obj list \<Rightarrow> state" where
  "init h = \<lparr>heap = h, calls = []\<rparr>"

definition invoke :: "framework \<Rightarrow> call \<Rightarrow> state \<Rightarrow> reply \<times> state" where
  "invoke fw c s = (fw s c, s\<lparr>calls := calls s @ [(c, fw s c)]\<rparr>)"

definition alloc :: "obj \<Rightarrow> state \<Rightarrow> addr outcome \<times> state" where
  "alloc ob s = (Returned (length (heap s)), s\<lparr>heap := heap s @ [ob]\<rparr>)"

definition new :: "framework \<Rightarrow> obj \<Rightarrow> state \<Rightarrow> addr outcome \<times> state" where
  "new fw ob s =
     (case invoke fw (Construct ob) s of
        (Returns, s') \<Rightarrow> alloc ob s'
      | (Raises e, s') \<Rightarrow> (Raised e, s')
      | (Blocks, s') \<Rightarrow> (Blocked, s'))"

definition build :: "framework \<Rightarrow> addr \<Rightarrow> state \<Rightarrow> addr outcome \<times> state" where
  "build fw server s =
     (case invoke fw (Build server) s of
        (Returns, s') \<Rightarrow> alloc (Built server) s'
      | (Raises e, s') \<Rightarrow> (Raised e, s')
      | (Blocks, s') \<Rightarrow> (Blocked, s'))"

definition uvicorn_run ::
  "framework \<Rightarrow> addr \<Rightarrow> string \<Rightarrow> int \<Rightarrow> state \<Rightarrow> unit outcome \<times> state" where
  "uvicorn_run fw app host port s =
     (case invoke fw (UvicornRun app host port) s of
        (Returns, s') \<Rightarrow> (Returned (), s')
      | (Raises e, s') \<Rightarrow> (Raised e, s')
      | (Blocks, s') \<Rightarrow> (Blocked, s'))"

text \<open>
  One statement after another. The source has no \<^verbatim>\<open>try\<close>: an exception ends the
  function, and so does a call that never returns.
\<close>

definition and_then ::
  "(state \<Rightarrow> 'a outcome \<times> state) \<Rightarrow> ('a \<Rightarrow> state \<Rightarrow> 'b outcome \<times> state) \<Rightarrow>
     state \<Rightarrow> 'b outcome \<times> state" where
  "and_then m f s =
     (case m s of
        (Returned x, s') \<Rightarrow> f x s'
      | (Raised e, s') \<Rightarrow> (Raised e, s')
      | (Blocked, s') \<Rightarrow> (Blocked, s'))"

subsection \<open>The statements of main\<close>

text \<open>Lines 10 to 16: \<^verbatim>\<open>greeting_skill = AgentSkill(...)\<close>.\<close>

definition assign_greeting_skill :: "framework \<Rightarrow> state \<Rightarrow> addr outcome \<times> state" where
  "assign_greeting_skill fw =
     new fw (AgentSkill \<lparr>
       id_skill = ''hello_world'',
       name_skill = ''Greet'',
       description_skill = ''Return a greeting'',
       tags = [''greeting'', ''hello'', ''world''],
       examples = [''Hey'', ''Hi'', ''Hello'']\<rparr>)"

text \<open>
  Lines 18 to 27: \<^verbatim>\<open>agent_card = AgentCard(...)\<close>. Python evaluates the arguments
  before the call, so \<^verbatim>\<open>AgentCapabilities()\<close> runs first.
\<close>

definition assign_agent_card ::
  "framework \<Rightarrow> addr \<Rightarrow> state \<Rightarrow> addr outcome \<times> state" where
  "assign_agent_card fw greeting_skill =
     and_then (new fw (AgentCapabilities [])) (\<lambda>caps.
       new fw (AgentCard \<lparr>
         name = ''Greeting Agent'',
         description = ''A simple agent that returns a greeting'',
         url = ''http://localhost:9999/'',
         defaultInputModes = [''text''],
         defaultOutputModes = [''text''],
         skills = [greeting_skill],
         version = ''1.0.0'',
         capabilities = caps\<rparr>))"

text \<open>
  Lines 30 to 33: \<^verbatim>\<open>request_handler = DefaultRequestHandler(...)\<close>, its two arguments
  evaluated left to right.
\<close>

definition assign_request_handler :: "framework \<Rightarrow> state \<Rightarrow> addr outcome \<times> state" where
  "assign_request_handler fw =
     and_then (new fw GreetingAgentExecutor) (\<lambda>executor.
     and_then (new fw InMemoryTaskStore) (\<lambda>store.
       new fw (DefaultRequestHandler \<lparr>agent_executor = executor, task_store = store\<rparr>)))"

text \<open>Lines 37 to 40: \<^verbatim>\<open>server = A2AStarletteApplication(...)\<close>.\<close>

definition assign_server ::
  "framework \<Rightarrow> addr \<Rightarrow> addr \<Rightarrow> state \<Rightarrow> addr outcome \<times> state" where
  "assign_server fw request_handler agent_card' =
     new fw (A2AStarletteApplication
       \<lparr>http_handler = request_handler, agent_card = agent_card'\<rparr>)"

text \<open>Line 43: \<^verbatim>\<open>uvicorn.run(server.build(), host="0.0.0.0", port=9999)\<close>.\<close>

definition call_uvicorn_run :: "framework \<Rightarrow> addr \<Rightarrow> state \<Rightarrow> unit outcome \<times> state" where
  "call_uvicorn_run fw server =
     and_then (build fw server) (\<lambda>app. uvicorn_run fw app ''0.0.0.0'' 9999)"

text \<open>Lines 8 to 43.\<close>

definition main :: "framework \<Rightarrow> state \<Rightarrow> unit outcome \<times> state" where
  "main fw =
     and_then (assign_greeting_skill fw) (\<lambda>greeting_skill.
     and_then (assign_agent_card fw greeting_skill) (\<lambda>agent_card'.
     and_then (assign_request_handler fw) (\<lambda>request_handler.
     and_then (assign_server fw request_handler agent_card') (\<lambda>server.
       call_uvicorn_run fw server))))"

text \<open>
  Lines 46 and 47: the script calls \<^verbatim>\<open>main()\<close> once. \<open>h\<close> holds the objects that exist
  when it does (the imports have run); no call of \<^verbatim>\<open>main\<close> has been made yet.
\<close>

definition start :: "framework \<Rightarrow> obj list \<Rightarrow> unit outcome \<times> state" where
  "start fw h = main fw (init h)"

subsection \<open>Reading a state\<close>

text \<open>The object at an address, if the address is in use.\<close>

definition deref :: "state \<Rightarrow> addr \<Rightarrow> obj option" where
  "deref s a = (if a < length (heap s) then Some (heap s ! a) else None)"

fun is_uvicorn_run :: "call \<Rightarrow> bool" where
  "is_uvicorn_run (UvicornRun a host port) = True"
| "is_uvicorn_run c = False"

text \<open>
  A capability is explicitly enabled by a capabilities object when the constructor call
  named it with the value \<^verbatim>\<open>True\<close>; a card enables what its capabilities object
  enables.
\<close>

fun enabled :: "obj \<Rightarrow> string \<Rightarrow> bool" where
  "enabled (AgentCapabilities kw) k = ((k, True) \<in> set kw)"
| "enabled ob k = False"

definition card_enables :: "state \<Rightarrow> AgentCard \<Rightarrow> string \<Rightarrow> bool" where
  "card_enables s c k =
     (case deref s (capabilities c) of None \<Rightarrow> False | Some ob \<Rightarrow> enabled ob k)"

subsection \<open>Host and port of a URL\<close>

text \<open>
  The advertised address is a string of the form \<^verbatim>\<open>scheme://host:port/path\<close>. These
  functions read the host and the decimal port out of it; they are needed only to
  compare the card's URL with the arguments of \<^verbatim>\<open>uvicorn.run\<close>.
\<close>

fun after_scheme :: "string \<Rightarrow> string" where
  "after_scheme [] = []"
| "after_scheme (c # cs) =
     (if take 3 (c # cs) = ''://'' then drop 3 (c # cs) else after_scheme cs)"

definition authority :: "string \<Rightarrow> string" where
  "authority u = takeWhile (\<lambda>c. c \<noteq> CHR ''/'') (after_scheme u)"

definition url_host :: "string \<Rightarrow> string" where
  "url_host u = takeWhile (\<lambda>c. c \<noteq> CHR '':'') (authority u)"

definition digit :: "char \<Rightarrow> nat option" where
  "digit c =
     (if 48 \<le> (of_char c :: nat) \<and> (of_char c :: nat) \<le> 57
      then Some (of_char c - 48) else None)"

fun decimal :: "nat \<Rightarrow> string \<Rightarrow> nat option" where
  "decimal n [] = Some n"
| "decimal n (c # cs) =
     (case digit c of None \<Rightarrow> None | Some d \<Rightarrow> decimal (10 * n + d) cs)"

definition url_port :: "string \<Rightarrow> int option" where
  "url_port u =
     (case dropWhile (\<lambda>c. c \<noteq> CHR '':'') (authority u) of
        [] \<Rightarrow> None
      | c # ds \<Rightarrow> (if ds = [] then None else map_option int (decimal 0 ds)))"

subsection \<open>Relocation\<close>

text \<open>
  Two runs that start with different numbers of objects give their new objects
  different addresses. \<open>shift n\<close> moves every address in a call up by \<open>n\<close>, so that
  the calls of two runs can be compared.
\<close>

fun shift_obj :: "nat \<Rightarrow> obj \<Rightarrow> obj" where
  "shift_obj n (AgentSkill k) = AgentSkill k"
| "shift_obj n (AgentCapabilities kw) = AgentCapabilities kw"
| "shift_obj n (AgentCard c) =
     AgentCard (c\<lparr>skills := map (\<lambda>a. a + n) (skills c), capabilities := capabilities c + n\<rparr>)"
| "shift_obj n GreetingAgentExecutor = GreetingAgentExecutor"
| "shift_obj n InMemoryTaskStore = InMemoryTaskStore"
| "shift_obj n (DefaultRequestHandler d) =
     DefaultRequestHandler
       \<lparr>agent_executor = agent_executor d + n, task_store = task_store d + n\<rparr>"
| "shift_obj n (A2AStarletteApplication app) =
     A2AStarletteApplication
       \<lparr>http_handler = http_handler app + n, agent_card = agent_card app + n\<rparr>"
| "shift_obj n (Built a) = Built (a + n)"

fun shift :: "nat \<Rightarrow> call \<Rightarrow> call" where
  "shift n (Construct ob) = Construct (shift_obj n ob)"
| "shift n (Build a) = Build (a + n)"
| "shift n (UvicornRun a host port) = UvicornRun (a + n) host port"

subsection \<open>Straight-line execution of a list of calls\<close>

text \<open>
  \<open>exec\<close> makes the calls of a list in order and stops at the first that does not
  return; \<open>call_sites n\<close> lists the nine call sites of \<^verbatim>\<open>main\<close> in the order in which
  Python reaches them, for a heap that holds \<open>n\<close> objects on entry. Both serve the
  proofs: \<open>main_exec\<close> below shows that \<open>main\<close> is \<open>exec\<close> on \<open>call_sites\<close>.
\<close>

fun result :: "call \<Rightarrow> obj list" where
  "result (Construct ob) = [ob]"
| "result (Build a) = [Built a]"
| "result (UvicornRun a host port) = []"

fun stop :: "reply \<Rightarrow> unit outcome" where
  "stop Returns = Returned ()"
| "stop (Raises e) = Raised e"
| "stop Blocks = Blocked"

fun exec :: "framework \<Rightarrow> call list \<Rightarrow> state \<Rightarrow> unit outcome \<times> state" where
  "exec fw [] s = (Returned (), s)"
| "exec fw (c # cs) s =
     (case fw s c of
        Returns \<Rightarrow> exec fw cs \<lparr>heap = heap s @ result c, calls = calls s @ [(c, Returns)]\<rparr>
      | Raises e \<Rightarrow> (Raised e, \<lparr>heap = heap s, calls = calls s @ [(c, Raises e)]\<rparr>)
      | Blocks \<Rightarrow> (Blocked, \<lparr>heap = heap s, calls = calls s @ [(c, Blocks)]\<rparr>))"

definition call_sites :: "addr \<Rightarrow> call list" where
  "call_sites n =
    [Construct (AgentSkill \<lparr>
       id_skill = ''hello_world'',
       name_skill = ''Greet'',
       description_skill = ''Return a greeting'',
       tags = [''greeting'', ''hello'', ''world''],
       examples = [''Hey'', ''Hi'', ''Hello'']\<rparr>),
     Construct (AgentCapabilities []),
     Construct (AgentCard \<lparr>
       name = ''Greeting Agent'',
       description = ''A simple agent that returns a greeting'',
       url = ''http://localhost:9999/'',
       defaultInputModes = [''text''],
       defaultOutputModes = [''text''],
       skills = [n],
       version = ''1.0.0'',
       capabilities = n + 1\<rparr>),
     Construct GreetingAgentExecutor,
     Construct InMemoryTaskStore,
     Construct (DefaultRequestHandler \<lparr>agent_executor = n + 3, task_store = n + 4\<rparr>),
     Construct (A2AStarletteApplication \<lparr>http_handler = n + 5, agent_card = n + 2\<rparr>),
     Build (n + 6),
     UvicornRun (n + 7) ''0.0.0.0'' 9999]"

subsection \<open>Some frameworks\<close>

text \<open>
  Four frameworks on which the theorems are tried. \<open>serving\<close>: every constructor
  and \<^verbatim>\<open>build\<close> return and \<^verbatim>\<open>uvicorn.run\<close> serves without end.
  \<open>port_in_use\<close>: the same, but \<^verbatim>\<open>uvicorn.run\<close> raises. \<open>rejects_card\<close>: the
  constructor of the agent card raises (a malformed descriptor) and every other call
  returns. \<open>failing\<close>: every call raises.
\<close>

definition serving :: framework where
  "serving s c = (if is_uvicorn_run c then Blocks else Returns)"

definition port_in_use :: framework where
  "port_in_use s c =
     (if is_uvicorn_run c then Raises (Exception ''address already in use'') else Returns)"




section \<open>main is a straight line\<close>

lemma state_upd:
  "s\<lparr>calls := t, heap := h\<rparr> = \<lparr>heap = h, calls = t\<rparr>"
  "s\<lparr>calls := t\<rparr> = \<lparr>heap = heap s, calls = t\<rparr>"
  by (cases s, simp)+

lemma and_then_assoc:
  "and_then (and_then m f) g = and_then m (\<lambda>x. and_then (f x) g)"
  by (rule ext) (simp add: and_then_def split: prod.splits outcome.splits)

lemma step_new:
  assumes "c = Construct ob"
    and "f (length (heap s)) \<lparr>heap = heap s @ [ob], calls = calls s @ [(c, Returns)]\<rparr> =
         exec fw cs \<lparr>heap = heap s @ [ob], calls = calls s @ [(c, Returns)]\<rparr>"
  shows "and_then (new fw ob) f s = exec fw (c # cs) s"
  using assms
  by (cases "fw s (Construct ob)")
     (simp_all add: and_then_def new_def invoke_def alloc_def state_upd)

lemma step_build:
  assumes "c = Build a"
    and "f (length (heap s)) \<lparr>heap = heap s @ [Built a], calls = calls s @ [(c, Returns)]\<rparr> =
         exec fw cs \<lparr>heap = heap s @ [Built a], calls = calls s @ [(c, Returns)]\<rparr>"
  shows "and_then (build fw a) f s = exec fw (c # cs) s"
  using assms
  by (cases "fw s (Build a)")
     (simp_all add: and_then_def build_def invoke_def alloc_def state_upd)

lemma step_uvicorn_run:
  assumes "c = UvicornRun a host port"
  shows "uvicorn_run fw a host port s = exec fw [c] s"
  using assms
  by (cases "fw s (UvicornRun a host port)")
     (simp_all add: uvicorn_run_def invoke_def state_upd)

lemma main_exec: "main fw s = exec fw (call_sites (length (heap s))) s"
  unfolding main_def assign_greeting_skill_def assign_agent_card_def
    assign_request_handler_def assign_server_def call_uvicorn_run_def
    and_then_assoc call_sites_def
  apply (rule step_new, simp)
  apply (rule step_new, simp)
  apply (rule step_new, simp)
  apply (rule step_new, simp)
  apply (rule step_new, simp)
  apply (rule step_new, simp)
  apply (rule step_new, simp)
  apply (rule step_build, simp)
  apply (rule step_uvicorn_run, simp)
  done

text \<open>
  What a straight-line execution leaves behind: \<open>k\<close> calls returned, their results are
  on the heap, and if \<open>k\<close> is not the whole list, the next call got the reply \<open>q\<close>
  and ended the execution.
\<close>

lemma exec_shape:
  "\<exists>k q. k \<le> length cs \<and> q \<noteq> Returns \<and>
     exec fw cs s =
       (if k < length cs then stop q else Returned (),
        \<lparr>heap = heap s @ concat (map result (take k cs)),
         calls = calls s @ map (\<lambda>c. (c, Returns)) (take k cs) @
                 (if k < length cs then [(cs ! k, q)] else [])\<rparr>)"
proof (induction cs arbitrary: s)
  case Nil
  have "Blocks \<noteq> Returns" by simp
  then show ?case by (intro exI [of _ 0] exI [of _ Blocks]) simp
next
  case (Cons c cs)
  show ?case
  proof (cases "fw s c")
    case Returns
    let ?s = "\<lparr>heap = heap s @ result c, calls = calls s @ [(c, Returns)]\<rparr>"
    from Cons.IH [of ?s] obtain k q where
      "k \<le> length cs" "q \<noteq> Returns"
      "exec fw cs ?s =
         (if k < length cs then stop q else Returned (),
          \<lparr>heap = heap ?s @ concat (map result (take k cs)),
           calls = calls ?s @ map (\<lambda>c. (c, Returns)) (take k cs) @
                   (if k < length cs then [(cs ! k, q)] else [])\<rparr>)"
      by blast
    with Returns show ?thesis
      by (intro exI [of _ "Suc k"] exI [of _ q]) simp
  next
    case (Raises e)
    then show ?thesis
      by (intro exI [of _ 0] exI [of _ "Raises e"]) simp
  next
    case Blocks
    then show ?thesis
      by (intro exI [of _ 0] exI [of _ Blocks]) simp
  qed
qed

lemma start_shape:
  obtains k q where "k \<le> 9" and "q \<noteq> Returns"
    and "start fw h =
      (if k < 9 then stop q else Returned (),
       \<lparr>heap = h @ concat (map result (take k (call_sites (length h)))),
        calls = map (\<lambda>c. (c, Returns)) (take k (call_sites (length h))) @
                (if k < 9 then [(call_sites (length h) ! k, q)] else [])\<rparr>)"
proof -
  have len: "length (call_sites (length h)) = 9"
    by (simp add: call_sites_def)
  from exec_shape [of "call_sites (length h)" fw "init h"] len
  show thesis
    by (auto simp: start_def main_exec init_def intro: that)
qed

lemma upto9:
  fixes k :: nat
  shows "k \<le> 9 \<Longrightarrow>
    k = 0 \<or> k = 1 \<or> k = 2 \<or> k = 3 \<or> k = 4 \<or> k = 5 \<or> k = 6 \<or> k = 7 \<or> k = 8 \<or> k = 9"
  by arith

lemma call_sites_length: "length (call_sites n) = 9"
  by (simp add: call_sites_def)

lemma start_calls:
  assumes "start fw h = (r, s')"
  obtains k q where "k \<le> 9" and "q \<noteq> Returns"
    and "r = (if k < 9 then stop q else Returned ())"
    and "heap s' = h @ concat (map result (take k (call_sites (length h))))"
    and "calls s' = map (\<lambda>c. (c, Returns)) (take k (call_sites (length h))) @
                (if k < 9 then [(call_sites (length h) ! k, q)] else [])"
proof -
  obtain k q where "k \<le> 9" and "q \<noteq> Returns"
    and "start fw h =
      (if k < 9 then stop q else Returned (),
       \<lparr>heap = h @ concat (map result (take k (call_sites (length h)))),
        calls = map (\<lambda>c. (c, Returns)) (take k (call_sites (length h))) @
                (if k < 9 then [(call_sites (length h) ! k, q)] else [])\<rparr>)"
    by (rule start_shape)
  with assms show thesis
    by (intro that [of k q]) auto
qed

lemma start_calls_in:
  assumes "start fw h = (r, s')" and "(c, p) \<in> set (calls s')"
  shows "c \<in> set (call_sites (length h))"
proof -
  from assms(1) obtain k q where
    "calls s' = map (\<lambda>c. (c, Returns)) (take k (call_sites (length h))) @
                (if k < 9 then [(call_sites (length h) ! k, q)] else [])"
    by (rule start_calls)
  with assms(2) have "c \<in> set (take k (call_sites (length h))) \<or>
      (k < 9 \<and> c = call_sites (length h) ! k)"
    by (auto split: if_splits)
  then show ?thesis
    using call_sites_length [of "length h"] by (auto dest: in_set_takeD)
qed

lemma start_calls_take:
  assumes "start fw h = (r, s')"
  shows "\<exists>j. map fst (calls s') = take j (call_sites (length h))"
proof -
  from assms obtain k q where c:
    "calls s' = map (\<lambda>c. (c, Returns)) (take k (call_sites (length h))) @
                (if k < 9 then [(call_sites (length h) ! k, q)] else [])"
    by (rule start_calls)
  show ?thesis
  proof (cases "k < 9")
    case True
    with c call_sites_length [of "length h"]
    have "map fst (calls s') = take (Suc k) (call_sites (length h))"
      by (simp add: take_Suc_conv_app_nth comp_def)
    then show ?thesis ..
  next
    case False
    with c have "map fst (calls s') = take k (call_sites (length h))"
      by (simp add: comp_def)
    then show ?thesis ..
  qed
qed

lemma start_serving:
  "start serving [] =
    (Blocked,
     \<lparr>heap = concat (map result (take 8 (call_sites 0))),
      calls = map (\<lambda>c. (c, Returns)) (take 8 (call_sites 0)) @ [(call_sites 0 ! 8, Blocks)]\<rparr>)"
  by (simp add: start_def main_exec init_def call_sites_def serving_def)

lemma start_port_in_use:
  "start port_in_use [] =
    (Raised (Exception ''address already in use''),
     \<lparr>heap = concat (map result (take 8 (call_sites 0))),
      calls = map (\<lambda>c. (c, Returns)) (take 8 (call_sites 0)) @
        [(call_sites 0 ! 8, Raises (Exception ''address already in use''))]\<rparr>)"
  by (simp add: start_def main_exec init_def call_sites_def port_in_use_def)

lemma url_literal:
  "url_host ''http://localhost:9999/'' = ''localhost''"
  "url_port ''http://localhost:9999/'' = Some 9999"
  by (simp_all add: url_host_def url_port_def authority_def digit_def)

subsection \<open>Statements only add objects\<close>

lemma new_heap: "prefix (heap s) (heap (snd (new fw ob s)))"
  by (cases "fw s (Construct ob)") (simp_all add: new_def invoke_def alloc_def)

lemma build_heap: "prefix (heap s) (heap (snd (build fw a s)))"
  by (cases "fw s (Build a)") (simp_all add: build_def invoke_def alloc_def)

lemma uvicorn_run_heap: "heap (snd (uvicorn_run fw a host port s)) = heap s"
  by (cases "fw s (UvicornRun a host port)") (simp_all add: uvicorn_run_def invoke_def)

lemma and_then_heap:
  assumes m: "\<And>s. prefix (heap s) (heap (snd (m s)))"
    and f: "\<And>x s. prefix (heap s) (heap (snd (f x s)))"
  shows "prefix (heap s) (heap (snd (and_then m f s)))"
proof (cases "m s")
  case (Pair r s1)
  from m [of s] Pair have first: "prefix (heap s) (heap s1)" by simp
  show ?thesis
  proof (cases r)
    case (Returned x)
    with Pair have "and_then m f s = f x s1"
      by (simp add: and_then_def)
    with first f [of s1 x] show ?thesis
      by (auto intro: prefix_order.trans)
  next
    case (Raised e)
    with Pair first show ?thesis by (simp add: and_then_def)
  next
    case Blocked
    with Pair first show ?thesis by (simp add: and_then_def)
  qed
qed

lemma prefix_deref:
  assumes "prefix (heap s) (heap t)" and "a < length (heap s)"
  shows "deref t a = deref s a"
proof -
  from assms(1) obtain zs where "heap t = heap s @ zs"
    by (auto simp: prefix_def)
  with assms(2) show ?thesis
    by (simp add: deref_def nth_append)
qed

lemma assign_agent_card_heap:
  "prefix (heap s) (heap (snd (assign_agent_card fw g s)))"
  unfolding assign_agent_card_def by (intro and_then_heap new_heap)

lemma assign_request_handler_heap:
  "prefix (heap s) (heap (snd (assign_request_handler fw s)))"
  unfolding assign_request_handler_def by (intro and_then_heap new_heap)

lemma assign_server_heap:
  "prefix (heap s) (heap (snd (assign_server fw rh ac s)))"
  unfolding assign_server_def by (rule new_heap)

lemma call_uvicorn_run_heap:
  "prefix (heap s) (heap (snd (call_uvicorn_run fw sv s)))"
  unfolding call_uvicorn_run_def
  by (intro and_then_heap build_heap) (simp add: uvicorn_run_heap)

subsection \<open>Comparing two runs\<close>

lemma shift_obj_commute: "shift_obj a (shift_obj b ob) = shift_obj b (shift_obj a ob)"
  by (cases ob) (simp_all add: add.commute add.left_commute)

lemma shift_commute: "shift a (shift b c) = shift b (shift a c)"
  by (cases c) (simp_all add: shift_obj_commute add.commute add.left_commute)

lemma call_sites_shift: "call_sites n = map (shift n) (call_sites 0)"
  by (simp add: call_sites_def)

lemma take_prefix_either: "prefix (take i xs) (take j xs) \<or> prefix (take j xs) (take i xs)"
proof (cases "i \<le> j")
  case True
  then have "take i xs = take i (take j xs)" by (simp add: min_def)
  then have "prefix (take i xs) (take j xs)"
    by (metis take_is_prefix)
  then show ?thesis ..
next
  case False
  then have "take j xs = take j (take i xs)" by (simp add: min_def)
  then have "prefix (take j xs) (take i xs)"
    by (metis take_is_prefix)
  then show ?thesis ..
qed

lemma start_calls_shifted:
  assumes "start fw h = (r, s')"
  shows "\<exists>j. map (shift m \<circ> fst) (calls s') =
    take j (map (shift m \<circ> shift (length h)) (call_sites 0))"
proof -
  from start_calls_take [OF assms] obtain j where
    "map fst (calls s') = take j (call_sites (length h))" ..
  then have "map (shift m) (map fst (calls s')) =
      map (shift m) (take j (map (shift (length h)) (call_sites 0)))"
    using call_sites_shift [of "length h"] by simp
  then have "map (shift m \<circ> fst) (calls s') =
      take j (map (shift m \<circ> shift (length h)) (call_sites 0))"
    by (simp add: take_map)
  then show ?thesis ..
qed


lemma start_port_in_use_later:
  "start port_in_use [InMemoryTaskStore] =
    (Raised (Exception ''address already in use''),
     \<lparr>heap = InMemoryTaskStore # concat (map result (take 8 (call_sites 1))),
      calls = map (\<lambda>c. (c, Returns)) (take 8 (call_sites 1)) @
        [(call_sites 1 ! 8, Raises (Exception ''address already in use''))]\<rparr>)"
  by (simp add: start_def main_exec init_def call_sites_def port_in_use_def)

lemma descriptors_built:
  "and_then (assign_greeting_skill serving) (assign_agent_card serving) (init []) =
    (Returned 2,
     \<lparr>heap = concat (map result (take 3 (call_sites 0))),
      calls = map (\<lambda>c. (c, Returns)) (take 3 (call_sites 0))\<rparr>)"
  by (simp add: assign_greeting_skill_def assign_agent_card_def and_then_def new_def
      invoke_def alloc_def init_def serving_def call_sites_def)



section \<open>The claims\<close>







text \<open>
  C1. The two descriptors equal their literal values. The first call \<^verbatim>\<open>main\<close> makes
  constructs the skill descriptor with id \<^verbatim>\<open>"hello_world"\<close>, name \<^verbatim>\<open>"Greet"\<close>,
  description \<^verbatim>\<open>"Return a greeting"\<close>, tags \<^verbatim>\<open>["greeting", "hello", "world"]\<close> and
  examples \<^verbatim>\<open>["Hey", "Hi", "Hello"]\<close>, and no skill descriptor with other values is
  ever constructed. Every agent card that is constructed has name
  \<^verbatim>\<open>"Greeting Agent"\<close>, description \<^verbatim>\<open>"A simple agent that returns a greeting"\<close>, url
  \<^verbatim>\<open>"http://localhost:9999/"\<close>, both mode lists \<^verbatim>\<open>["text"]\<close>, version \<^verbatim>\<open>"1.0.0"\<close>
  and a skills list whose single entry refers to that skill descriptor; once its
  constructor has returned, the card is the object at the address the local variable
  holds.
\<close>

theorem descriptors_equal_their_literals:
  assumes "start fw h = (r, s')"
  shows "(calls s' \<noteq> [] \<and>
      fst (hd (calls s')) = Construct (AgentSkill \<lparr>
        id_skill = ''hello_world'', name_skill = ''Greet'',
        description_skill = ''Return a greeting'',
        tags = [''greeting'', ''hello'', ''world''],
        examples = [''Hey'', ''Hi'', ''Hello'']\<rparr>)) \<and>
    ((Construct (AgentSkill k), p) \<in> set (calls s') \<longrightarrow>
      k = \<lparr>id_skill = ''hello_world'', name_skill = ''Greet'',
        description_skill = ''Return a greeting'',
        tags = [''greeting'', ''hello'', ''world''],
        examples = [''Hey'', ''Hi'', ''Hello'']\<rparr>) \<and>
    ((Construct (AgentCard c), p') \<in> set (calls s') \<longrightarrow>
      name c = ''Greeting Agent'' \<and>
      description c = ''A simple agent that returns a greeting'' \<and>
      url c = ''http://localhost:9999/'' \<and>
      defaultInputModes c = [''text''] \<and>
      defaultOutputModes c = [''text''] \<and>
      version c = ''1.0.0'' \<and>
      map (deref s') (skills c) = [Some (AgentSkill \<lparr>
        id_skill = ''hello_world'', name_skill = ''Greet'',
        description_skill = ''Return a greeting'',
        tags = [''greeting'', ''hello'', ''world''],
        examples = [''Hey'', ''Hi'', ''Hello'']\<rparr>)]) \<and>
    ((Construct (AgentCard c), Returns) \<in> set (calls s') \<longrightarrow>
      deref s' (length h + 2) = Some (AgentCard c))"
proof -
  from assms obtain k' q where k: "k' \<le> 9" and q: "q \<noteq> Returns"
    and h: "heap s' = h @ concat (map result (take k' (call_sites (length h))))"
    and c: "calls s' = map (\<lambda>c. (c, Returns)) (take k' (call_sites (length h))) @
                (if k' < 9 then [(call_sites (length h) ! k', q)] else [])"
    by (rule start_calls)
  have first: "calls s' \<noteq> [] \<and>
      fst (hd (calls s')) = Construct (AgentSkill \<lparr>
        id_skill = ''hello_world'', name_skill = ''Greet'',
        description_skill = ''Return a greeting'',
        tags = [''greeting'', ''hello'', ''world''],
        examples = [''Hey'', ''Hi'', ''Hello'']\<rparr>)"
    using upto9 [OF k] c by (elim disjE; simp add: call_sites_def)
  have skill: "(Construct (AgentSkill k), p) \<in> set (calls s') \<longrightarrow>
      k = \<lparr>id_skill = ''hello_world'', name_skill = ''Greet'',
        description_skill = ''Return a greeting'',
        tags = [''greeting'', ''hello'', ''world''],
        examples = [''Hey'', ''Hi'', ''Hello'']\<rparr>"
    using start_calls_in [OF assms, of "Construct (AgentSkill k)" p]
    by (auto simp: call_sites_def)
  have card: "(Construct (AgentCard c), p') \<in> set (calls s') \<longrightarrow>
      name c = ''Greeting Agent'' \<and>
      description c = ''A simple agent that returns a greeting'' \<and>
      url c = ''http://localhost:9999/'' \<and>
      defaultInputModes c = [''text''] \<and>
      defaultOutputModes c = [''text''] \<and>
      version c = ''1.0.0'' \<and>
      map (deref s') (skills c) = [Some (AgentSkill \<lparr>
        id_skill = ''hello_world'', name_skill = ''Greet'',
        description_skill = ''Return a greeting'',
        tags = [''greeting'', ''hello'', ''world''],
        examples = [''Hey'', ''Hi'', ''Hello'']\<rparr>)]"
    using upto9 [OF k] c h
    by (elim disjE; simp add: call_sites_def deref_def nth_append)
  have kept: "(Construct (AgentCard c), Returns) \<in> set (calls s') \<longrightarrow>
      deref s' (length h + 2) = Some (AgentCard c)"
    using upto9 [OF k] c h q
    by (elim disjE; simp add: call_sites_def deref_def nth_append)
  from first skill card kept show ?thesis by blast
qed


theorem descriptors_equal_their_literals_witness:
  "start serving [] = (Blocked, snd (start serving [])) \<and>
   (Construct (AgentSkill \<lparr>
        id_skill = ''hello_world'', name_skill = ''Greet'',
        description_skill = ''Return a greeting'',
        tags = [''greeting'', ''hello'', ''world''],
        examples = [''Hey'', ''Hi'', ''Hello'']\<rparr>), Returns)
     \<in> set (calls (snd (start serving []))) \<and>
   (Construct (AgentCard \<lparr>
       name = ''Greeting Agent'',
       description = ''A simple agent that returns a greeting'',
       url = ''http://localhost:9999/'',
       defaultInputModes = [''text''],
       defaultOutputModes = [''text''],
       skills = [0],
       version = ''1.0.0'',
       capabilities = 1\<rparr>), Returns) \<in> set (calls (snd (start serving []))) \<and>
   deref (snd (start serving [])) 0 = Some (AgentSkill \<lparr>
        id_skill = ''hello_world'', name_skill = ''Greet'',
        description_skill = ''Return a greeting'',
        tags = [''greeting'', ''hello'', ''world''],
        examples = [''Hey'', ''Hi'', ''Hello'']\<rparr>) \<and>
   deref (snd (start serving [])) 2 = Some (AgentCard \<lparr>
       name = ''Greeting Agent'',
       description = ''A simple agent that returns a greeting'',
       url = ''http://localhost:9999/'',
       defaultInputModes = [''text''],
       defaultOutputModes = [''text''],
       skills = [0],
       version = ''1.0.0'',
       capabilities = 1\<rparr>)"
  using descriptors_equal_their_literals
    [of serving "[]" Blocked "snd (start serving [])"
      "\<lparr>id_skill = ''hello_world'', name_skill = ''Greet'',
        description_skill = ''Return a greeting'',
        tags = [''greeting'', ''hello'', ''world''],
        examples = [''Hey'', ''Hi'', ''Hello'']\<rparr>" Returns
      "\<lparr>name = ''Greeting Agent'',
       description = ''A simple agent that returns a greeting'',
       url = ''http://localhost:9999/'',
       defaultInputModes = [''text''],
       defaultOutputModes = [''text''],
       skills = [0],
       version = ''1.0.0'',
       capabilities = 1\<rparr>" Returns]
  by (simp add: start_serving call_sites_def deref_def)

text \<open>
  C5. The request handler is built from a greeting executor and an in-memory task
  store that this run of \<^verbatim>\<open>main\<close> has created: the two arguments of the
  \<^verbatim>\<open>DefaultRequestHandler\<close> call refer to a \<^verbatim>\<open>GreetingAgentExecutor\<close> and an
  \<^verbatim>\<open>InMemoryTaskStore\<close> whose constructors were called in this run, at two different
  addresses that were not in use when \<^verbatim>\<open>main\<close> started; and the handler passed to the
  application builder is that handler.
\<close>

theorem handler_pairs_new_executor_and_store:
  assumes "start fw h = (r, s')"
  shows "((Construct (DefaultRequestHandler d), p) \<in> set (calls s') \<longrightarrow>
      deref s' (agent_executor d) = Some GreetingAgentExecutor \<and>
      deref s' (task_store d) = Some InMemoryTaskStore \<and>
      (Construct GreetingAgentExecutor, Returns) \<in> set (calls s') \<and>
      (Construct InMemoryTaskStore, Returns) \<in> set (calls s') \<and>
      length h \<le> agent_executor d \<and> length h \<le> task_store d \<and>
      agent_executor d \<noteq> task_store d) \<and>
    ((Construct (A2AStarletteApplication app), p') \<in> set (calls s') \<longrightarrow>
      (\<exists>d. deref s' (http_handler app) = Some (DefaultRequestHandler d) \<and>
         (Construct (DefaultRequestHandler d), Returns) \<in> set (calls s')))"
proof -
  from assms obtain k q where k: "k \<le> 9" and q: "q \<noteq> Returns"
    and h: "heap s' = h @ concat (map result (take k (call_sites (length h))))"
    and c: "calls s' = map (\<lambda>c. (c, Returns)) (take k (call_sites (length h))) @
                (if k < 9 then [(call_sites (length h) ! k, q)] else [])"
    by (rule start_calls)
  have handler: "(Construct (DefaultRequestHandler d), p) \<in> set (calls s') \<longrightarrow>
      deref s' (agent_executor d) = Some GreetingAgentExecutor \<and>
      deref s' (task_store d) = Some InMemoryTaskStore \<and>
      (Construct GreetingAgentExecutor, Returns) \<in> set (calls s') \<and>
      (Construct InMemoryTaskStore, Returns) \<in> set (calls s') \<and>
      length h \<le> agent_executor d \<and> length h \<le> task_store d \<and>
      agent_executor d \<noteq> task_store d"
    using upto9 [OF k] c h
    by (elim disjE; simp add: call_sites_def deref_def nth_append)
  have application: "(Construct (A2AStarletteApplication app), p') \<in> set (calls s') \<longrightarrow>
      (\<exists>d. deref s' (http_handler app) = Some (DefaultRequestHandler d) \<and>
         (Construct (DefaultRequestHandler d), Returns) \<in> set (calls s'))"
    using upto9 [OF k] c h
    by (elim disjE; simp add: call_sites_def deref_def nth_append)
  from handler application show ?thesis ..
qed

theorem handler_pairs_new_executor_and_store_witness:
  "start serving [] = (Blocked, snd (start serving [])) \<and>
   (Construct (DefaultRequestHandler \<lparr>agent_executor = 3, task_store = 4\<rparr>), Returns)
     \<in> set (calls (snd (start serving []))) \<and>
   (Construct (A2AStarletteApplication \<lparr>http_handler = 5, agent_card = 2\<rparr>), Returns)
     \<in> set (calls (snd (start serving []))) \<and>
   deref (snd (start serving [])) 3 = Some GreetingAgentExecutor \<and>
   deref (snd (start serving [])) 4 = Some InMemoryTaskStore \<and>
   deref (snd (start serving [])) 5 =
     Some (DefaultRequestHandler \<lparr>agent_executor = 3, task_store = 4\<rparr>)"
  using handler_pairs_new_executor_and_store
    [of serving "[]" Blocked "snd (start serving [])"
      "\<lparr>agent_executor = 3, task_store = 4\<rparr>" Returns
      "\<lparr>http_handler = 5, agent_card = 2\<rparr>" Returns]
  by (simp add: start_serving call_sites_def deref_def)

text \<open>
  C6. \<^verbatim>\<open>main\<close> has no exception handler. Whenever a call that \<^verbatim>\<open>main\<close> makes (a
  construction step or the run call) raises, \<^verbatim>\<open>main\<close> ends with that same exception
  and the raising call is the last one it made; and \<^verbatim>\<open>main\<close> raises nothing but what
  its last call raised.
\<close>

theorem failures_propagate:
  assumes "start fw h = (r, s')"
  shows "((c, Raises e) \<in> set (calls s') \<longrightarrow>
            r = Raised e \<and> last (calls s') = (c, Raises e)) \<and>
         (r = Raised e \<longrightarrow>
            calls s' \<noteq> [] \<and> snd (last (calls s')) = Raises e)"
proof -
  from assms obtain k q where k: "k \<le> 9" and q: "q \<noteq> Returns"
    and r: "r = (if k < 9 then stop q else Returned ())"
    and c: "calls s' = map (\<lambda>c. (c, Returns)) (take k (call_sites (length h))) @
                (if k < 9 then [(call_sites (length h) ! k, q)] else [])"
    by (rule start_calls)
  have raised: "r = Raised e \<and> last (calls s') = (c, Raises e)"
    if "(c, Raises e) \<in> set (calls s')"
  proof -
    from that c have "k < 9 \<and> (c, Raises e) = (call_sites (length h) ! k, q)"
      by (auto split: if_splits)
    with r c show ?thesis by auto
  qed
  have only: "calls s' \<noteq> [] \<and> snd (last (calls s')) = Raises e" if "r = Raised e"
  proof -
    from that r have "k < 9 \<and> stop q = Raised e"
      by (simp split: if_splits)
    then have "k < 9 \<and> q = Raises e"
      by (cases q) simp_all
    with c show ?thesis by simp
  qed
  from raised only show ?thesis by blast
qed

theorem failures_propagate_witness:
  "start port_in_use [] =
     (Raised (Exception ''address already in use''), snd (start port_in_use [])) \<and>
   (UvicornRun 7 ''0.0.0.0'' 9999, Raises (Exception ''address already in use''))
     \<in> set (calls (snd (start port_in_use []))) \<and>
   last (calls (snd (start port_in_use []))) =
     (UvicornRun 7 ''0.0.0.0'' 9999, Raises (Exception ''address already in use''))"
  using failures_propagate
    [of port_in_use "[]" "Raised (Exception ''address already in use'')"
      "snd (start port_in_use [])" "UvicornRun 7 ''0.0.0.0'' 9999"
      "Exception ''address already in use''"]
  by (simp add: start_port_in_use call_sites_def)

text \<open>
  C9. In every execution that constructs the agent card and calls \<^verbatim>\<open>uvicorn.run\<close>, the
  port in the card's advertised URL is the port passed to the run call, while the
  advertised host name, \<^verbatim>\<open>localhost\<close>, is not the host the server binds to.
\<close>

theorem advertised_port_is_bind_port:
  assumes "start fw h = (r, s')"
  shows "(Construct (AgentCard c), p) \<in> set (calls s') \<and>
         (UvicornRun a host port, p') \<in> set (calls s') \<longrightarrow>
           url_port (url c) = Some port \<and>
           url_host (url c) = ''localhost'' \<and>
           url_host (url c) \<noteq> host"
proof
  assume both: "(Construct (AgentCard c), p) \<in> set (calls s') \<and>
         (UvicornRun a host port, p') \<in> set (calls s')"
  from both start_calls_in [OF assms, of "Construct (AgentCard c)" p]
  have "url c = ''http://localhost:9999/''"
    by (auto simp: call_sites_def)
  moreover
  from both start_calls_in [OF assms, of "UvicornRun a host port" p']
  have "host = ''0.0.0.0'' \<and> port = 9999"
    by (auto simp: call_sites_def)
  ultimately show "url_port (url c) = Some port \<and>
           url_host (url c) = ''localhost'' \<and>
           url_host (url c) \<noteq> host"
    by (simp add: url_literal)
qed

theorem advertised_port_is_bind_port_witness:
  "start serving [] = (Blocked, snd (start serving [])) \<and>
   (Construct (AgentCard \<lparr>
       name = ''Greeting Agent'',
       description = ''A simple agent that returns a greeting'',
       url = ''http://localhost:9999/'',
       defaultInputModes = [''text''],
       defaultOutputModes = [''text''],
       skills = [0],
       version = ''1.0.0'',
       capabilities = 1\<rparr>), Returns) \<in> set (calls (snd (start serving []))) \<and>
   (UvicornRun 7 ''0.0.0.0'' 9999, Blocks) \<in> set (calls (snd (start serving []))) \<and>
   url_port ''http://localhost:9999/'' = Some 9999 \<and>
   url_host ''http://localhost:9999/'' = ''localhost'' \<and>
   url_host ''http://localhost:9999/'' \<noteq> ''0.0.0.0''"
  using advertised_port_is_bind_port
    [of serving "[]" Blocked "snd (start serving [])"
      "\<lparr>name = ''Greeting Agent'',
       description = ''A simple agent that returns a greeting'',
       url = ''http://localhost:9999/'',
       defaultInputModes = [''text''],
       defaultOutputModes = [''text''],
       skills = [0],
       version = ''1.0.0'',
       capabilities = 1\<rparr>" Returns 7 "''0.0.0.0''" 9999 Blocks]
  by (simp add: start_serving call_sites_def)

text \<open>
  C10. \<^verbatim>\<open>AgentCapabilities\<close> is instantiated with no arguments, the capabilities field
  of every agent card that is constructed refers to that object, and so the card
  explicitly enables no capability, whatever its name.
\<close>

theorem capabilities_are_default:
  assumes "start fw h = (r, s')"
  shows "((Construct (AgentCapabilities kw), p) \<in> set (calls s') \<longrightarrow> kw = []) \<and>
    ((Construct (AgentCard c), p') \<in> set (calls s') \<longrightarrow>
       deref s' (capabilities c) = Some (AgentCapabilities []) \<and>
       \<not> card_enables s' c k)"
proof -
  from assms obtain j q where j: "j \<le> 9"
    and h: "heap s' = h @ concat (map result (take j (call_sites (length h))))"
    and c: "calls s' = map (\<lambda>c. (c, Returns)) (take j (call_sites (length h))) @
                (if j < 9 then [(call_sites (length h) ! j, q)] else [])"
    by (rule start_calls)
  have no_args: "(Construct (AgentCapabilities kw), p) \<in> set (calls s') \<longrightarrow> kw = []"
    using start_calls_in [OF assms, of "Construct (AgentCapabilities kw)" p]
    by (auto simp: call_sites_def)
  have in_card: "(Construct (AgentCard c), p') \<in> set (calls s') \<longrightarrow>
       deref s' (capabilities c) = Some (AgentCapabilities [])"
    using upto9 [OF j] c h
    by (elim disjE; simp add: call_sites_def deref_def nth_append)
  then have "(Construct (AgentCard c), p') \<in> set (calls s') \<longrightarrow> \<not> card_enables s' c k"
    by (simp add: card_enables_def)
  with no_args in_card show ?thesis by blast
qed

theorem capabilities_are_default_witness:
  "start serving [] = (Blocked, snd (start serving [])) \<and>
   (Construct (AgentCapabilities []), Returns) \<in> set (calls (snd (start serving []))) \<and>
   (Construct (AgentCard \<lparr>
       name = ''Greeting Agent'',
       description = ''A simple agent that returns a greeting'',
       url = ''http://localhost:9999/'',
       defaultInputModes = [''text''],
       defaultOutputModes = [''text''],
       skills = [0],
       version = ''1.0.0'',
       capabilities = 1\<rparr>), Returns) \<in> set (calls (snd (start serving []))) \<and>
   deref (snd (start serving [])) 1 = Some (AgentCapabilities []) \<and>
   \<not> card_enables (snd (start serving [])) \<lparr>
       name = ''Greeting Agent'',
       description = ''A simple agent that returns a greeting'',
       url = ''http://localhost:9999/'',
       defaultInputModes = [''text''],
       defaultOutputModes = [''text''],
       skills = [0],
       version = ''1.0.0'',
       capabilities = 1\<rparr> ''streaming''"
  using capabilities_are_default
    [of serving "[]" Blocked "snd (start serving [])" "[]" Returns
      "\<lparr>name = ''Greeting Agent'',
       description = ''A simple agent that returns a greeting'',
       url = ''http://localhost:9999/'',
       defaultInputModes = [''text''],
       defaultOutputModes = [''text''],
       skills = [0],
       version = ''1.0.0'',
       capabilities = 1\<rparr>" Returns "''streaming''"]
  by (simp add: start_serving call_sites_def deref_def card_enables_def)

text \<open>
  C7. \<^verbatim>\<open>main\<close> takes no input and does not branch. Take any two executions, whatever
  the framework does in each and whatever objects exist when each starts. Once the
  addresses of both are moved to a common base, the sequence of calls of one is an
  initial part of the sequence of calls of the other: they differ only in how far
  they get. In particular the skill descriptors they construct are equal, the agent
  cards and the handler configurations are equal up to that move of addresses, and the
  host and port passed to the run function are the same.
\<close>

theorem two_runs_agree:
  assumes "start fw h = (r, s)" and "start fw' h' = (r', s')"
  shows
   "(prefix (map (shift (length h') \<circ> fst) (calls s)) (map (shift (length h) \<circ> fst) (calls s')) \<or>
     prefix (map (shift (length h) \<circ> fst) (calls s')) (map (shift (length h') \<circ> fst) (calls s))) \<and>
    ((Construct (AgentSkill k), p) \<in> set (calls s) \<and>
     (Construct (AgentSkill k'), p') \<in> set (calls s') \<longrightarrow> k = k') \<and>
    ((Construct (AgentCard c), q) \<in> set (calls s) \<and>
     (Construct (AgentCard c'), q') \<in> set (calls s') \<longrightarrow>
       shift_obj (length h') (AgentCard c) = shift_obj (length h) (AgentCard c')) \<and>
    ((Construct (DefaultRequestHandler d), u) \<in> set (calls s) \<and>
     (Construct (DefaultRequestHandler d'), u') \<in> set (calls s') \<longrightarrow>
       shift_obj (length h') (DefaultRequestHandler d) =
       shift_obj (length h) (DefaultRequestHandler d')) \<and>
    ((UvicornRun a host port, v) \<in> set (calls s) \<and>
     (UvicornRun a' host' port', v') \<in> set (calls s') \<longrightarrow>
       host = host' \<and> port = port')"
proof -
  have comm: "shift (length h') \<circ> shift (length h) = shift (length h) \<circ> shift (length h')"
    by (rule ext) (simp add: shift_commute)
  from start_calls_shifted [OF assms(1), of "length h'"] obtain i where
    "map (shift (length h') \<circ> fst) (calls s) =
       take i (map (shift (length h') \<circ> shift (length h)) (call_sites 0))" ..
  moreover
  from start_calls_shifted [OF assms(2), of "length h"] obtain j where
    "map (shift (length h) \<circ> fst) (calls s') =
       take j (map (shift (length h) \<circ> shift (length h')) (call_sites 0))" ..
  ultimately have sequence:
    "prefix (map (shift (length h') \<circ> fst) (calls s)) (map (shift (length h) \<circ> fst) (calls s')) \<or>
     prefix (map (shift (length h) \<circ> fst) (calls s')) (map (shift (length h') \<circ> fst) (calls s))"
    using take_prefix_either [of i _ j] by (simp add: comm)
  have skill: "k = k'"
    if "(Construct (AgentSkill k), p) \<in> set (calls s) \<and>
        (Construct (AgentSkill k'), p') \<in> set (calls s')"
    using that start_calls_in [OF assms(1), of "Construct (AgentSkill k)" p]
      start_calls_in [OF assms(2), of "Construct (AgentSkill k')" p']
    by (auto simp: call_sites_def)
  have card: "shift_obj (length h') (AgentCard c) = shift_obj (length h) (AgentCard c')"
    if "(Construct (AgentCard c), q) \<in> set (calls s) \<and>
        (Construct (AgentCard c'), q') \<in> set (calls s')"
    using that start_calls_in [OF assms(1), of "Construct (AgentCard c)" q]
      start_calls_in [OF assms(2), of "Construct (AgentCard c')" q']
    by (auto simp: call_sites_def add.commute)
  have handler: "shift_obj (length h') (DefaultRequestHandler d) =
       shift_obj (length h) (DefaultRequestHandler d')"
    if "(Construct (DefaultRequestHandler d), u) \<in> set (calls s) \<and>
        (Construct (DefaultRequestHandler d'), u') \<in> set (calls s')"
    using that start_calls_in [OF assms(1), of "Construct (DefaultRequestHandler d)" u]
      start_calls_in [OF assms(2), of "Construct (DefaultRequestHandler d')" u']
    by (auto simp: call_sites_def)
  have run: "host = host' \<and> port = port'"
    if "(UvicornRun a host port, v) \<in> set (calls s) \<and>
        (UvicornRun a' host' port', v') \<in> set (calls s')"
    using that start_calls_in [OF assms(1), of "UvicornRun a host port" v]
      start_calls_in [OF assms(2), of "UvicornRun a' host' port'" v']
    by (auto simp: call_sites_def)
  from sequence skill card handler run show ?thesis by blast
qed

theorem two_runs_agree_witness:
  "start serving [] = (Blocked, snd (start serving [])) \<and>
   start port_in_use [InMemoryTaskStore] =
     (Raised (Exception ''address already in use''),
      snd (start port_in_use [InMemoryTaskStore])) \<and>
   (Construct (AgentCard \<lparr>
       name = ''Greeting Agent'',
       description = ''A simple agent that returns a greeting'',
       url = ''http://localhost:9999/'',
       defaultInputModes = [''text''],
       defaultOutputModes = [''text''],
       skills = [0],
       version = ''1.0.0'',
       capabilities = 1\<rparr>), Returns) \<in> set (calls (snd (start serving []))) \<and>
   (Construct (AgentCard \<lparr>
       name = ''Greeting Agent'',
       description = ''A simple agent that returns a greeting'',
       url = ''http://localhost:9999/'',
       defaultInputModes = [''text''],
       defaultOutputModes = [''text''],
       skills = [1],
       version = ''1.0.0'',
       capabilities = 2\<rparr>), Returns)
     \<in> set (calls (snd (start port_in_use [InMemoryTaskStore]))) \<and>
   (Construct (DefaultRequestHandler \<lparr>agent_executor = 3, task_store = 4\<rparr>), Returns)
     \<in> set (calls (snd (start serving []))) \<and>
   (Construct (DefaultRequestHandler \<lparr>agent_executor = 4, task_store = 5\<rparr>), Returns)
     \<in> set (calls (snd (start port_in_use [InMemoryTaskStore]))) \<and>
   shift_obj 1 (DefaultRequestHandler \<lparr>agent_executor = 3, task_store = 4\<rparr>) =
     shift_obj 0 (DefaultRequestHandler \<lparr>agent_executor = 4, task_store = 5\<rparr>) \<and>
   (UvicornRun 7 ''0.0.0.0'' 9999, Blocks) \<in> set (calls (snd (start serving []))) \<and>
   (UvicornRun 8 ''0.0.0.0'' 9999, Raises (Exception ''address already in use''))
     \<in> set (calls (snd (start port_in_use [InMemoryTaskStore]))) \<and>
   map (shift 1 \<circ> fst) (calls (snd (start serving []))) =
     map (shift 0 \<circ> fst) (calls (snd (start port_in_use [InMemoryTaskStore])))"
  using two_runs_agree
    [where fw = serving and h = "[]" and r = Blocked and s = "snd (start serving [])"
      and fw' = port_in_use and h' = "[InMemoryTaskStore]"
      and r' = "Raised (Exception ''address already in use'')"
      and s' = "snd (start port_in_use [InMemoryTaskStore])"
      and k = "\<lparr>id_skill = ''hello_world'', name_skill = ''Greet'',
        description_skill = ''Return a greeting'',
        tags = [''greeting'', ''hello'', ''world''],
        examples = [''Hey'', ''Hi'', ''Hello'']\<rparr>"
      and k' = "\<lparr>id_skill = ''hello_world'', name_skill = ''Greet'',
        description_skill = ''Return a greeting'',
        tags = [''greeting'', ''hello'', ''world''],
        examples = [''Hey'', ''Hi'', ''Hello'']\<rparr>"
      and p = Returns and p' = Returns
      and c = "\<lparr>name = ''Greeting Agent'',
       description = ''A simple agent that returns a greeting'',
       url = ''http://localhost:9999/'',
       defaultInputModes = [''text''],
       defaultOutputModes = [''text''],
       skills = [0],
       version = ''1.0.0'',
       capabilities = 1\<rparr>"
      and c' = "\<lparr>name = ''Greeting Agent'',
       description = ''A simple agent that returns a greeting'',
       url = ''http://localhost:9999/'',
       defaultInputModes = [''text''],
       defaultOutputModes = [''text''],
       skills = [1],
       version = ''1.0.0'',
       capabilities = 2\<rparr>"
      and q = Returns and q' = Returns
      and d = "\<lparr>agent_executor = 3, task_store = 4\<rparr>"
      and d' = "\<lparr>agent_executor = 4, task_store = 5\<rparr>"
      and u = Returns and u' = Returns
      and a = 7 and host = "''0.0.0.0''" and port = 9999 and v = Blocks
      and a' = 8 and host' = "''0.0.0.0''" and port' = 9999
      and v' = "Raises (Exception ''address already in use'')"]
  by (simp add: start_serving start_port_in_use_later call_sites_def)

text \<open>
  C8. The descriptors are assembled once and not modified afterwards. Every statement
  of \<^verbatim>\<open>main\<close> after the first leaves every object that exists when it starts exactly
  as it is, whether the statement returns, raises or blocks; and at the end of any
  execution the skill descriptor and the agent card whose constructors returned are
  still the objects that were constructed, at the addresses the local variables hold.
\<close>

theorem descriptors_never_modified:
  "(a < length (heap s) \<longrightarrow>
      deref (snd (assign_agent_card fw g s)) a = deref s a \<and>
      deref (snd (assign_request_handler fw s)) a = deref s a \<and>
      deref (snd (assign_server fw rh ac s)) a = deref s a \<and>
      deref (snd (call_uvicorn_run fw sv s)) a = deref s a) \<and>
   (start fw h = (r, s') \<longrightarrow>
      ((Construct (AgentSkill k), Returns) \<in> set (calls s') \<longrightarrow>
         deref s' (length h) = Some (AgentSkill k)) \<and>
      ((Construct (AgentCard c), Returns) \<in> set (calls s') \<longrightarrow>
         deref s' (length h + 2) = Some (AgentCard c)))"
proof -
  have frame: "deref (snd (assign_agent_card fw g s)) a = deref s a \<and>
      deref (snd (assign_request_handler fw s)) a = deref s a \<and>
      deref (snd (assign_server fw rh ac s)) a = deref s a \<and>
      deref (snd (call_uvicorn_run fw sv s)) a = deref s a" if "a < length (heap s)"
    using that
    by (simp add: prefix_deref assign_agent_card_heap assign_request_handler_heap
        assign_server_heap call_uvicorn_run_heap)
  have final: "((Construct (AgentSkill k), Returns) \<in> set (calls s') \<longrightarrow>
         deref s' (length h) = Some (AgentSkill k)) \<and>
      ((Construct (AgentCard c), Returns) \<in> set (calls s') \<longrightarrow>
         deref s' (length h + 2) = Some (AgentCard c))" if run: "start fw h = (r, s')"
  proof -
    from run obtain j q where j: "j \<le> 9" and q: "q \<noteq> Returns"
      and hp: "heap s' = h @ concat (map result (take j (call_sites (length h))))"
      and cs: "calls s' = map (\<lambda>c. (c, Returns)) (take j (call_sites (length h))) @
                (if j < 9 then [(call_sites (length h) ! j, q)] else [])"
      by (rule start_calls)
    have "(Construct (AgentSkill k), Returns) \<in> set (calls s') \<longrightarrow>
         deref s' (length h) = Some (AgentSkill k)"
      using upto9 [OF j] cs hp q
      by (elim disjE; simp add: call_sites_def deref_def nth_append)
    moreover
    have "(Construct (AgentCard c), Returns) \<in> set (calls s') \<longrightarrow>
         deref s' (length h + 2) = Some (AgentCard c)"
      using upto9 [OF j] cs hp q
      by (elim disjE; simp add: call_sites_def deref_def nth_append)
    ultimately show ?thesis ..
  qed
  from frame final show ?thesis by blast
qed

theorem descriptors_never_modified_witness:
  "2 < length (heap (snd (and_then (assign_greeting_skill serving)
         (assign_agent_card serving) (init [])))) \<and>
   deref (snd (assign_request_handler serving
       (snd (and_then (assign_greeting_skill serving)
         (assign_agent_card serving) (init []))))) 2 =
     deref (snd (and_then (assign_greeting_skill serving)
         (assign_agent_card serving) (init []))) 2 \<and>
   deref (snd (and_then (assign_greeting_skill serving)
         (assign_agent_card serving) (init []))) 2 =
     Some (AgentCard \<lparr>
       name = ''Greeting Agent'',
       description = ''A simple agent that returns a greeting'',
       url = ''http://localhost:9999/'',
       defaultInputModes = [''text''],
       defaultOutputModes = [''text''],
       skills = [0],
       version = ''1.0.0'',
       capabilities = 1\<rparr>) \<and>
   start serving [] = (Blocked, snd (start serving [])) \<and>
   (Construct (AgentCard \<lparr>
       name = ''Greeting Agent'',
       description = ''A simple agent that returns a greeting'',
       url = ''http://localhost:9999/'',
       defaultInputModes = [''text''],
       defaultOutputModes = [''text''],
       skills = [0],
       version = ''1.0.0'',
       capabilities = 1\<rparr>), Returns) \<in> set (calls (snd (start serving []))) \<and>
   deref (snd (start serving [])) 2 = Some (AgentCard \<lparr>
       name = ''Greeting Agent'',
       description = ''A simple agent that returns a greeting'',
       url = ''http://localhost:9999/'',
       defaultInputModes = [''text''],
       defaultOutputModes = [''text''],
       skills = [0],
       version = ''1.0.0'',
       capabilities = 1\<rparr>)"
  using descriptors_never_modified
    [where a = 2 and fw = serving and g = 0 and rh = 5 and ac = 2 and sv = 6
      and s = "snd (and_then (assign_greeting_skill serving)
         (assign_agent_card serving) (init []))"
      and h = "[]" and r = Blocked and s' = "snd (start serving [])"
      and k = "\<lparr>id_skill = ''hello_world'', name_skill = ''Greet'',
        description_skill = ''Return a greeting'',
        tags = [''greeting'', ''hello'', ''world''],
        examples = [''Hey'', ''Hi'', ''Hello'']\<rparr>"
      and c = "\<lparr>name = ''Greeting Agent'',
       description = ''A simple agent that returns a greeting'',
       url = ''http://localhost:9999/'',
       defaultInputModes = [''text''],
       defaultOutputModes = [''text''],
       skills = [0],
       version = ''1.0.0'',
       capabilities = 1\<rparr>"]
  by (simp add: descriptors_built start_serving call_sites_def deref_def)

end
